theory Spec2Isabelle
  imports Complex_Main
begin

section \<open>JavaScript numbers\<close>

text \<open>
  Coordinates, distances and scores are JavaScript numbers. They are modelled as
  mathematical numbers: \<open>real\<close> for coordinates and distances, \<open>int\<close> for the rounded
  scores and the floors, \<open>nat\<close> for the round counter. The rounding of IEEE doubles is
  not modelled. The one place where the source can leave the finite numbers is the
  division in \<open>getPerformanceRating\<close>; its result is a \<open>jsnum\<close>.
\<close>

datatype jsnum = Num real | PosInfinity | NegInfinity | NaN

text \<open>\<open>Math.round\<close>: the nearest integer, a tie going towards plus infinity.\<close>

definition Math_round :: "real \<Rightarrow> int" where
  "Math_round v = \<lfloor>v + 1 / 2\<rfloor>"

text \<open>\<open>a / b\<close> on two finite numbers (the divisor is never the negative zero here).\<close>

definition js_divide :: "real \<Rightarrow> real \<Rightarrow> jsnum" where
  "js_divide a b =
     (if b \<noteq> 0 then Num (a / b)
      else if 0 < a then PosInfinity
      else if a < 0 then NegInfinity
      else NaN)"

text \<open>\<open>v * c\<close> for a finite \<open>c\<close>.\<close>

fun js_times :: "jsnum \<Rightarrow> real \<Rightarrow> jsnum" where
  "js_times (Num v) c = Num (v * c)"
| "js_times PosInfinity c = (if 0 < c then PosInfinity else if c < 0 then NegInfinity else NaN)"
| "js_times NegInfinity c = (if 0 < c then NegInfinity else if c < 0 then PosInfinity else NaN)"
| "js_times NaN c = NaN"

text \<open>\<open>v >= c\<close> for a finite \<open>c\<close>; every comparison with \<open>NaN\<close> is false.\<close>

fun js_ge :: "jsnum \<Rightarrow> real \<Rightarrow> bool" where
  "js_ge (Num v) c = (c \<le> v)"
| "js_ge PosInfinity c = True"
| "js_ge NegInfinity c = False"
| "js_ge NaN c = False"

section \<open>Scoring (useGameState.js, FinalResultsScreen.jsx)\<close>

record point =
  coord_x :: real
  coord_y :: real

definition TOTAL_ROUNDS :: nat where
  "TOTAL_ROUNDS = 5"

definition calculateDistance :: "point \<Rightarrow> point \<Rightarrow> real" where
  "calculateDistance guess actual =
     (let dx = coord_x guess - coord_x actual;
          dy = coord_y guess - coord_y actual
      in sqrt (dx * dx + dy * dy))"

definition calculateLocationScore :: "real \<Rightarrow> int" where
  "calculateLocationScore distance =
     (let maxScore = 5000;
          decayRate = 0.05;
          score = Math_round (real_of_int maxScore * exp (- decayRate * distance))
      in max 0 (min maxScore score))"

text \<open>
  The spec's wording of the same law, for comparison with the source's:
  \<open>round(5000 * exp(-0.05 * distance))\<close>, clamped to \<open>[0, 5000]\<close>.
\<close>

definition clamp :: "int \<Rightarrow> int \<Rightarrow> int \<Rightarrow> int" where
  "clamp lo hi v = (if v < lo then lo else if hi < v then hi else v)"

definition locationScore_spec :: "real \<Rightarrow> int" where
  "locationScore_spec d = clamp 0 5000 (round (5000 * exp (- 0.05 * d)))"

text \<open>
  The line \<open>const totalScore = floorCorrect ? locationScore : Math.round(locationScore * 0.8)\<close>
  of \<open>submitGuess\<close>.
\<close>

definition totalScore :: "int \<Rightarrow> bool \<Rightarrow> int" where
  "totalScore locationScore floorCorrect =
     (if floorCorrect then locationScore else Math_round (real_of_int locationScore * 0.8))"

text \<open>
  \<open>getPerformanceRating\<close> returns one of six object literals; the datatype names them
  by their \<open>rating\<close> field.
\<close>

datatype rating = Perfect | Excellent | Great | Good | KeepPracticing | Beginner

definition getPerformanceRating :: "int \<Rightarrow> int \<Rightarrow> rating" where
  "getPerformanceRating total_score maxPossible =
     (let percentage = js_times (js_divide (real_of_int total_score) (real_of_int maxPossible)) 100
      in if js_ge percentage 95 then Perfect
         else if js_ge percentage 80 then Excellent
         else if js_ge percentage 60 then Great
         else if js_ge percentage 40 then Good
         else if js_ge percentage 20 then KeepPracticing
         else Beginner)"

text \<open>
  The spec's wording of the rating: the percentage is \<open>total / max * 100\<close>, defined to be
  0 when \<open>max = 0\<close>, and the thresholds are inclusive lower bounds.
\<close>

definition performanceTier_spec :: "int \<Rightarrow> int \<Rightarrow> rating" where
  "performanceTier_spec t m =
     (let percentage = (if m = 0 then 0 else real_of_int t / real_of_int m * 100)
      in if 95 \<le> percentage then Perfect
         else if 80 \<le> percentage then Excellent
         else if 60 \<le> percentage then Great
         else if 40 \<le> percentage then Good
         else if 20 \<le> percentage then KeepPracticing
         else Beginner)"

section \<open>The session state (the hook \<open>useGameState\<close>)\<close>

datatype screen = Title | Game | Result | FinalResults

text \<open>
  An image as the provider \<open>getRandomImage\<close> hands it over. The hook reads \<open>url\<close>,
  \<open>correctLocation\<close> and \<open>correctFloor\<close>; the last two may be missing.
\<close>

record image =
  url :: string
  correctLocation :: "point option"
  correctFloor :: "int option"

text \<open>The result object built by \<open>submitGuess\<close> (the spec's RoundRecord).\<close>

record round_result =
  roundNumber :: nat
  imageUrl :: string
  result_guessLocation :: point
  actualLocation :: point
  result_guessFloor :: int
  actualFloor :: int
  distance :: real
  locationScore :: int
  floorCorrect :: bool
  score :: int

text \<open>
  The only call of \<open>getPerformanceRating\<close>, in \<open>FinalResultsScreen\<close>:
  \<open>totalScore = rounds.reduce((sum, round) => sum + round.score, 0)\<close>,
  \<open>maxPossible = rounds.length * 5000\<close>,
  \<open>performance = getPerformanceRating(totalScore, maxPossible)\<close>.
\<close>

definition rounds_totalScore :: "round_result list \<Rightarrow> int" where
  "rounds_totalScore rounds = foldl (\<lambda>sum r. sum + score r) 0 rounds"

definition maxPossible :: "round_result list \<Rightarrow> int" where
  "maxPossible rounds = int (length rounds) * 5000"

definition performance :: "round_result list \<Rightarrow> rating" where
  "performance rounds = getPerformanceRating (rounds_totalScore rounds) (maxPossible rounds)"

text \<open>
  One field per \<open>useState\<close> cell of the hook. \<open>fetchCalls\<close> is not a cell of the
  hook: it counts the calls of \<open>getRandomImage\<close>, the way the test suite's mock does.
\<close>

record session =
  screen :: screen
  currentRound :: nat
  currentImage :: "image option"
  guessLocation :: "point option"
  guessFloor :: "int option"
  currentResult :: "round_result option"
  roundResults :: "round_result list"
  isLoading :: bool
  error :: "string option"
  fetchCalls :: nat

definition initial :: session where
  "initial = \<lparr>screen = Title, currentRound = 1, currentImage = None, guessLocation = None,
     guessFloor = None, currentResult = None, roundResults = [], isLoading = False,
     error = None, fetchCalls = 0\<rparr>"

text \<open>How the promise returned by \<open>getRandomImage\<close> settles.\<close>

datatype outcome = Resolved image | Rejected

definition load_error :: string where
  "load_error = ''Failed to load image. Please try again.''"

text \<open>
  An asynchronous operation is split at its \<open>await\<close>: \<open>_begin\<close> is what runs before the
  function suspends (the fetch is issued there), \<open>_settle\<close> what runs once the promise has
  settled (the \<open>try\<close> body after the \<open>await\<close>, or the \<open>catch\<close>, and then \<open>finally\<close>).
\<close>

definition loadNewImage_begin :: "session \<Rightarrow> session" where
  "loadNewImage_begin s = s\<lparr>isLoading := True, error := None, fetchCalls := Suc (fetchCalls s)\<rparr>"

definition loadNewImage_settle :: "outcome \<Rightarrow> session \<Rightarrow> session" where
  "loadNewImage_settle out s =
     (case out of
        Resolved img \<Rightarrow>
          s\<lparr>currentImage := Some img, guessLocation := None, guessFloor := None,
            isLoading := False\<rparr>
      | Rejected \<Rightarrow> s\<lparr>error := Some load_error, isLoading := False\<rparr>)"

definition loadNewImage :: "outcome \<Rightarrow> session \<Rightarrow> session" where
  "loadNewImage out s = loadNewImage_settle out (loadNewImage_begin s)"

definition startGame_begin :: "session \<Rightarrow> session" where
  "startGame_begin s =
     s\<lparr>currentRound := 1, roundResults := [], currentResult := None,
       isLoading := True, error := None, fetchCalls := Suc (fetchCalls s)\<rparr>"

definition startGame_settle :: "outcome \<Rightarrow> session \<Rightarrow> session" where
  "startGame_settle out s =
     (case out of
        Resolved img \<Rightarrow>
          s\<lparr>currentImage := Some img, guessLocation := None, guessFloor := None,
            screen := Game, isLoading := False\<rparr>
      | Rejected \<Rightarrow> s\<lparr>error := Some load_error, isLoading := False\<rparr>)"

definition startGame :: "outcome \<Rightarrow> session \<Rightarrow> session" where
  "startGame out s = startGame_settle out (startGame_begin s)"

definition placeMarker :: "point \<Rightarrow> session \<Rightarrow> session" where
  "placeMarker coords s = s\<lparr>guessLocation := Some coords\<rparr>"

definition selectFloor :: "int \<Rightarrow> session \<Rightarrow> session" where
  "selectFloor fl s = s\<lparr>guessFloor := Some fl\<rparr>"

text \<open>
  The guard \<open>!guessLocation || !guessFloor || !currentImage\<close> tests truthiness: a
  missing value fails it, and so does the floor \<open>0\<close>. In the same way
  \<open>currentImage.correctFloor || 1\<close> replaces a missing floor and the floor \<open>0\<close>.
  The locals of the source that share their name with a field of the result are
  shortened here: \<open>aLocation\<close>, \<open>aFloor\<close>, \<open>dist\<close>, \<open>lScore\<close>, \<open>fCorrect\<close>.
\<close>

definition submitGuess :: "session \<Rightarrow> session" where
  "submitGuess s =
     (case guessLocation s of
        None \<Rightarrow> s
      | Some gl \<Rightarrow>
     (case guessFloor s of
        None \<Rightarrow> s
      | Some gf \<Rightarrow>
     if gf = 0 then s else
     (case currentImage s of
        None \<Rightarrow> s
      | Some img \<Rightarrow>
          let aLocation = (case correctLocation img of
                             None \<Rightarrow> \<lparr>coord_x = 50, coord_y = 50\<rparr>
                           | Some l \<Rightarrow> l);
              aFloor = (case correctFloor img of
                          None \<Rightarrow> 1
                        | Some f \<Rightarrow> if f = 0 then 1 else f);
              dist = calculateDistance gl aLocation;
              lScore = calculateLocationScore dist;
              fCorrect = (gf = aFloor);
              result = \<lparr>roundNumber = currentRound s, imageUrl = url img,
                        result_guessLocation = gl, actualLocation = aLocation,
                        result_guessFloor = gf, actualFloor = aFloor, distance = dist,
                        locationScore = lScore, floorCorrect = fCorrect,
                        score = totalScore lScore fCorrect\<rparr>
          in s\<lparr>currentResult := Some result,
               roundResults := roundResults s @ [result],
               screen := Result\<rparr>)))"

definition nextRound :: "outcome \<Rightarrow> session \<Rightarrow> session" where
  "nextRound out s =
     (if TOTAL_ROUNDS \<le> currentRound s then s\<lparr>screen := FinalResults\<rparr>
      else (loadNewImage out (s\<lparr>currentRound := currentRound s + 1, currentResult := None\<rparr>))
             \<lparr>screen := Game\<rparr>)"

definition viewFinalResults :: "session \<Rightarrow> session" where
  "viewFinalResults s = s\<lparr>screen := FinalResults\<rparr>"

definition resetGame :: "session \<Rightarrow> session" where
  "resetGame s =
     s\<lparr>screen := Title, currentRound := 1, currentImage := None, guessLocation := None,
       guessFloor := None, currentResult := None, roundResults := [], error := None\<rparr>"

section \<open>Sequences of operations\<close>

text \<open>
  One constructor per action the hook returns. An asynchronous action carries the way its
  fetch settles. The actions of a sequence run one after the other, each to its end and
  each on the state the previous one has left (the callbacks are those of the latest
  render); no action is invoked while another one is suspended at its fetch.
\<close>

datatype action =
    StartGame outcome
  | PlaceMarker point
  | SelectFloor int
  | SubmitGuess
  | NextRound outcome
  | ViewFinalResults
  | ResetGame

fun step :: "action \<Rightarrow> session \<Rightarrow> session" where
  "step (StartGame out) s = startGame out s"
| "step (PlaceMarker p) s = placeMarker p s"
| "step (SelectFloor f) s = selectFloor f s"
| "step SubmitGuess s = submitGuess s"
| "step (NextRound out) s = nextRound out s"
| "step ViewFinalResults s = viewFinalResults s"
| "step ResetGame s = resetGame s"

fun run :: "action list \<Rightarrow> session \<Rightarrow> session" where
  "run [] s = s"
| "run (a # as) s = run as (step a s)"

text \<open>
  The hook itself never looks at \<open>screen\<close> before it acts; which action can be invoked
  on which screen is decided by the components that receive the callbacks. A gate says
  which actions may be invoked in a state, and a sequence is admissible for a gate when
  every action of it is invoked in a state where the gate lets it through.
\<close>

fun admissible :: "(action \<Rightarrow> session \<Rightarrow> bool) \<Rightarrow> action list \<Rightarrow> session \<Rightarrow> bool" where
  "admissible gate [] s = True"
| "admissible gate (a # as) s = (gate a s \<and> admissible gate as (step a s))"

text \<open>
  The wiring of \<open>App.jsx\<close>: \<open>startGame\<close> is handed to the title screen and (as
  \<open>onPlayAgain\<close>) to the final results screen; \<open>placeMarker\<close>, \<open>selectFloor\<close> and
  \<open>submitGuess\<close> to the game screen; \<open>nextRound\<close> and \<open>viewFinalResults\<close> to the result
  screen; \<open>resetGame\<close> to several of them, and the gate lets it through everywhere. The
  gate leaves out what the interface restricts further (the error page that offers only
  \<open>resetGame\<close>, the result screen's choice between its two buttons by the round), so it
  admits every sequence the interface admits.
\<close>

fun wired :: "action \<Rightarrow> session \<Rightarrow> bool" where
  "wired (StartGame out) s = (screen s = Title \<or> screen s = FinalResults)"
| "wired (PlaceMarker p) s = (screen s = Game)"
| "wired (SelectFloor f) s = (screen s = Game)"
| "wired SubmitGuess s = (screen s = Game)"
| "wired (NextRound out) s = (screen s = Result)"
| "wired ViewFinalResults s = (screen s = Result)"
| "wired ResetGame s = True"

text \<open>Concrete data for the examples: the test suite's mock image and a perfect guess.\<close>

definition mockImage :: image where
  "mockImage = \<lparr>url = ''https://example.com/image.jpg'',
     correctLocation = Some \<lparr>coord_x = 50, coord_y = 50\<rparr>, correctFloor = Some 2\<rparr>"

definition centre :: point where
  "centre = \<lparr>coord_x = 50, coord_y = 50\<rparr>"

definition play_round :: "action list" where
  "play_round = [PlaceMarker centre, SelectFloor 2, SubmitGuess]"

definition first_round :: "action list" where
  "first_round = StartGame (Resolved mockImage) # play_round"

definition next_round :: "action list" where
  "next_round = NextRound (Resolved mockImage) # play_round"

definition fifth_guess :: "action list" where
  "fifth_guess = first_round @ next_round @ next_round @ next_round
     @ [NextRound (Resolved mockImage), PlaceMarker centre, SelectFloor 2]"

definition five_rounds :: "action list" where
  "five_rounds = fifth_guess @ [SubmitGuess]"

text \<open>The result of round \<open>n\<close> of the example match.\<close>

definition perfect_result :: "nat \<Rightarrow> round_result" where
  "perfect_result n =
     \<lparr>roundNumber = n, imageUrl = ''https://example.com/image.jpg'',
      result_guessLocation = centre, actualLocation = centre, result_guessFloor = 2,
      actualFloor = 2, distance = 0, locationScore = 5000, floorCorrect = True,
      score = 5000\<rparr>"

text \<open>
  The state between two actions that have run to their end, along the sequences that
  follow the wiring.
\<close>

definition round_inv :: "session \<Rightarrow> bool" where
  "round_inv s =
     (currentRound s \<le> TOTAL_ROUNDS \<and>
      (case screen s of
         Title \<Rightarrow> roundResults s = [] \<and> currentRound s = 1 \<and> currentResult s = None
       | Game \<Rightarrow> currentRound s = length (roundResults s) + 1 \<and> currentResult s = None
       | Result \<Rightarrow> currentRound s = length (roundResults s) \<and> currentResult s \<noteq> None
       | FinalResults \<Rightarrow>
           currentRound s = length (roundResults s) \<or>
           (roundResults s = [] \<and> currentRound s = 1)))"

section \<open>Suspended operations\<close>

text \<open>
  \<open>step\<close> takes \<open>startGame\<close> and \<open>nextRound\<close> from the call to the settled fetch in one
  piece. The hook's state while a fetch is outstanding, and what is invoked in the
  meantime, are states and sequences of their own. As before, an action is invoked on
  the state that is rendered at that moment. A continuation is an asynchronous
  function suspended at an \<open>await\<close>; the world is the hook's state and the continuations
  that are still suspended. \<open>startGame\<close> is suspended once, at its fetch. \<open>nextRound\<close> is
  suspended twice: inside \<open>loadNewImage\<close> at the fetch, and, once \<open>loadNewImage\<close> has run
  to its end, at \<open>await loadNewImage()\<close> itself, before \<open>setScreen('game')\<close>. A
  continuation at a fetch carries the way the fetch is going to settle.
\<close>

datatype continuation = AfterStartGame outcome | AfterNextRound outcome | AfterLoadNewImage

type_synonym world = "session \<times> continuation list"

text \<open>
  Invoking an action runs it up to its \<open>await\<close>, if it has one. \<open>nextRound\<close> in the last
  round returns before it.
\<close>

fun invoke :: "action \<Rightarrow> world \<Rightarrow> world" where
  "invoke (StartGame out) (s, ps) = (startGame_begin s, ps @ [AfterStartGame out])"
| "invoke (PlaceMarker p) (s, ps) = (placeMarker p s, ps)"
| "invoke (SelectFloor f) (s, ps) = (selectFloor f s, ps)"
| "invoke SubmitGuess (s, ps) = (submitGuess s, ps)"
| "invoke (NextRound out) (s, ps) =
     (if TOTAL_ROUNDS \<le> currentRound s then (s\<lparr>screen := FinalResults\<rparr>, ps)
      else (loadNewImage_begin (s\<lparr>currentRound := currentRound s + 1, currentResult := None\<rparr>),
            ps @ [AfterNextRound out]))"
| "invoke ViewFinalResults (s, ps) = (viewFinalResults s, ps)"
| "invoke ResetGame (s, ps) = (resetGame s, ps)"

text \<open>
  What a continuation runs when it is resumed, up to its next \<open>await\<close> or to its end, and
  the continuation it leaves behind, if any. The two resumptions of \<open>nextRound\<close> follow
  each other without a render between them; keeping them apart only adds states.
\<close>

fun resume :: "continuation \<Rightarrow> session \<Rightarrow> session \<times> continuation list" where
  "resume (AfterStartGame out) s = (startGame_settle out s, [])"
| "resume (AfterNextRound out) s = (loadNewImage_settle out s, [AfterLoadNewImage])"
| "resume AfterLoadNewImage s = (s\<lparr>screen := Game\<rparr>, [])"

text \<open>
  An event is an action being invoked or a suspended continuation being resumed (its
  fetch has settled, or the function it awaits has returned); \<open>Resume i\<close> resumes the
  \<open>i\<close>-th of them (fetches settle in any order), and nothing happens when there is none.
\<close>

datatype event = Invoke action | Resume nat

fun occur :: "event \<Rightarrow> world \<Rightarrow> world" where
  "occur (Invoke a) w = invoke a w"
| "occur (Resume i) (s, ps) =
     (if i < length ps
      then (case resume (ps ! i) s of (s', cs) \<Rightarrow> (s', take i ps @ cs @ drop (Suc i) ps))
      else (s, ps))"

fun trace :: "event list \<Rightarrow> world \<Rightarrow> world" where
  "trace [] w = w"
| "trace (e # es) w = trace es (occur e w)"

text \<open>The hook's state, and the suspended continuations, after a sequence of events.\<close>

definition reached :: "event list \<Rightarrow> session" where
  "reached es = fst (trace es (initial, []))"

definition outstanding :: "event list \<Rightarrow> continuation list" where
  "outstanding es = snd (trace es (initial, []))"

fun permitted :: "(event \<Rightarrow> world \<Rightarrow> bool) \<Rightarrow> event list \<Rightarrow> world \<Rightarrow> bool" where
  "permitted gate [] w = True"
| "permitted gate (e # es) w = (gate e w \<and> permitted gate es (occur e w))"


fun wired_one_fetch :: "event \<Rightarrow> world \<Rightarrow> bool" where
  "wired_one_fetch (Invoke (StartGame out)) (s, ps) = (wired (StartGame out) s \<and> ps = [])"
| "wired_one_fetch (Invoke (NextRound out)) (s, ps) = (wired (NextRound out) s \<and> ps = [])"
| "wired_one_fetch (Invoke a) (s, ps) = wired a s"
| "wired_one_fetch (Resume i) w = True"

text \<open>
  The events of a sequence of actions each of which runs to its end before the next one is
  invoked.
\<close>

fun immediately :: "action list \<Rightarrow> event list" where
  "immediately [] = []"
| "immediately (StartGame out # as) = Invoke (StartGame out) # Resume 0 # immediately as"
| "immediately (NextRound out # as) =
     Invoke (NextRound out) # Resume 0 # Resume 0 # immediately as"
| "immediately (a # as) = Invoke a # immediately as"


fun suspended_inv :: "continuation list \<Rightarrow> session \<Rightarrow> bool" where
  "suspended_inv [] s = (\<not> isLoading s \<and> round_inv s)"
| "suspended_inv [AfterStartGame out] s =
     (isLoading s \<and> (screen s = Title \<or> screen s = FinalResults) \<and> currentRound s = 1 \<and>
      roundResults s = [] \<and> currentResult s = None)"
| "suspended_inv [AfterNextRound out] s =
     (isLoading s \<and> screen s \<noteq> Game \<and> currentRound s = length (roundResults s) + 1 \<and>
      currentRound s \<le> TOTAL_ROUNDS \<and> currentResult s = None)"
| "suspended_inv [AfterLoadNewImage] s =
     (\<not> isLoading s \<and> screen s \<noteq> Game \<and> currentRound s = length (roundResults s) + 1 \<and>
      currentRound s \<le> TOTAL_ROUNDS \<and> currentResult s = None)"
| "suspended_inv (c # d # ps) s = False"

definition world_inv :: "world \<Rightarrow> bool" where
  "world_inv w = (case w of (s, ps) \<Rightarrow> suspended_inv ps s)"

section \<open>Auxiliary facts\<close>

lemmas action_defs = startGame_def startGame_begin_def startGame_settle_def loadNewImage_def
  loadNewImage_begin_def loadNewImage_settle_def placeMarker_def selectFloor_def
  nextRound_def viewFinalResults_def resetGame_def

lemmas example_defs = five_rounds_def fifth_guess_def next_round_def first_round_def
  play_round_def initial_def mockImage_def centre_def TOTAL_ROUNDS_def

lemma Math_round_eq_round: "Math_round v = round v"
  by (simp add: Math_round_def round_def)

lemma max_min_clamp: "lo \<le> hi \<Longrightarrow> max lo (min hi v) = clamp lo hi v"
  by (simp add: clamp_def max_def min_def)

lemma Math_round_four_fifths: "Math_round (real_of_int n * 0.8) = (8 * n + 5) div 10"
proof -
  have "real_of_int n * 0.8 + 1 / 2 = real_of_int (8 * n + 5) / real_of_int 10"
    by simp
  then have "\<lfloor>real_of_int n * 0.8 + 1 / 2\<rfloor> = \<lfloor>real_of_int (8 * n + 5) / real_of_int 10\<rfloor>"
    by presburger
  also have "\<dots> = (8 * n + 5) div 10"
    by (rule floor_divide_of_int_eq)
  finally show ?thesis
    by (simp add: Math_round_def)
qed

lemma submitGuess_complete:
  assumes "guessLocation s = Some gl" and "guessFloor s = Some gf" and "gf \<noteq> 0"
    and "currentImage s = Some img"
  shows "\<exists>r. submitGuess s =
           s\<lparr>currentResult := Some r, roundResults := roundResults s @ [r], screen := Result\<rparr> \<and>
           roundNumber r = currentRound s \<and> imageUrl r = url img \<and>
           result_guessLocation r = gl \<and> result_guessFloor r = gf \<and>
           actualLocation r = (case correctLocation img of
                                 None \<Rightarrow> \<lparr>coord_x = 50, coord_y = 50\<rparr> | Some l \<Rightarrow> l) \<and>
           actualFloor r = (case correctFloor img of
                              None \<Rightarrow> 1 | Some f \<Rightarrow> if f = 0 then 1 else f) \<and>
           floorCorrect r = (gf = actualFloor r) \<and>
           locationScore r = calculateLocationScore (distance r) \<and>
           distance r = calculateDistance gl (actualLocation r) \<and>
           score r = totalScore (locationScore r) (floorCorrect r)"
  unfolding submitGuess_def Let_def using assms
  by (simp del: ex_simps) (intro exI conjI, rule refl, simp_all)

lemma submitGuess_guard:
  "guessLocation s = None \<or> guessFloor s = None \<or> guessFloor s = Some 0 \<or>
   currentImage s = None \<Longrightarrow> submitGuess s = s"
  by (auto simp: submitGuess_def split: option.split)

text \<open>\<open>submitGuess\<close> either returns at its guard or appends one result.\<close>

lemma submitGuess_cases:
  "submitGuess s = s \<or>
   (\<exists>r. submitGuess s =
      s\<lparr>currentResult := Some r, roundResults := roundResults s @ [r], screen := Result\<rparr>)"
proof (cases "guessLocation s = None \<or> guessFloor s = None \<or> guessFloor s = Some 0 \<or>
    currentImage s = None")
  case True
  then show ?thesis by (simp add: submitGuess_guard)
next
  case False
  then obtain gl gf img where "guessLocation s = Some gl" and "guessFloor s = Some gf"
    and "gf \<noteq> 0" and "currentImage s = Some img"
    by auto
  from submitGuess_complete [OF this] show ?thesis by blast
qed

lemma submitGuess_frame:
  "currentRound (submitGuess s) = currentRound s \<and> fetchCalls (submitGuess s) = fetchCalls s \<and>
   error (submitGuess s) = error s \<and> currentImage (submitGuess s) = currentImage s"
  using submitGuess_cases [of s] by auto

lemma calculateLocationScore_zero: "calculateLocationScore 0 = 5000"
  by (simp add: calculateLocationScore_def Math_round_def)

lemma calculateDistance_same: "calculateDistance p p = 0"
  by (simp add: calculateDistance_def)

lemmas eval_defs = action_defs example_defs submitGuess_def Let_def calculateDistance_same
  calculateLocationScore_zero totalScore_def

section \<open>Scoring\<close>

text \<open>
  Claim C1. For every distance \<open>d\<close> the location score computed by the source equals
  \<open>round(5000 * exp(-0.05 * d))\<close> clamped to the interval from 0 to 5000, it lies in
  that interval, and the distance 0 scores exactly 5000.
\<close>

theorem calculateLocationScore_clamped_decay:
  "calculateLocationScore d = locationScore_spec d \<and>
   0 \<le> calculateLocationScore d \<and> calculateLocationScore d \<le> 5000 \<and>
   calculateLocationScore 0 = 5000"
proof -
  have "calculateLocationScore d = locationScore_spec d"
    unfolding calculateLocationScore_def locationScore_spec_def Let_def Math_round_eq_round
    by (simp add: max_min_clamp)
  moreover have "0 \<le> calculateLocationScore d" and "calculateLocationScore d \<le> 5000"
    unfolding calculateLocationScore_def Let_def by simp_all
  ultimately show ?thesis
    by (simp add: calculateLocationScore_zero)
qed

text \<open>
  Claim C2. A guess that passes the guard of \<open>submitGuess\<close> is recorded, as the current
  result and at the end of the history, with the guess, the target of the image (or the
  defaults), their distance and its location score; the score of the record is the
  location score when the guessed floor equals the target floor, and
  \<open>round(locationScore * 0.8)\<close> when it does not. The score line alone: for every integer
  \<open>n\<close> it returns \<open>n\<close> on a correct floor and \<open>round(n * 0.8)\<close>, which is
  \<open>(8 n + 5) div 10\<close>, on a wrong one; for 5000 and a wrong floor that is 4000.
\<close>

theorem submitGuess_round_score:
  assumes "guessLocation s = Some gl" and "guessFloor s = Some gf" and "gf \<noteq> 0"
    and "currentImage s = Some img"
  shows "(\<exists>r. submitGuess s =
              s\<lparr>currentResult := Some r, roundResults := roundResults s @ [r],
                screen := Result\<rparr> \<and>
            roundNumber r = currentRound s \<and> imageUrl r = url img \<and>
            result_guessLocation r = gl \<and> result_guessFloor r = gf \<and>
            actualLocation r = (case correctLocation img of
                                  None \<Rightarrow> \<lparr>coord_x = 50, coord_y = 50\<rparr> | Some l \<Rightarrow> l) \<and>
            actualFloor r = (case correctFloor img of
                               None \<Rightarrow> 1 | Some f \<Rightarrow> if f = 0 then 1 else f) \<and>
            distance r = calculateDistance gl (actualLocation r) \<and>
            locationScore r = calculateLocationScore (distance r) \<and>
            floorCorrect r = (gf = actualFloor r) \<and>
            score r = (if gf = actualFloor r then locationScore r
                       else round (real_of_int (locationScore r) * 0.8))) \<and>
         totalScore n True = n \<and>
         totalScore n False = round (real_of_int n * 0.8) \<and>
         totalScore n False = (8 * n + 5) div 10 \<and>
         totalScore 5000 False = 4000"
proof -
  from submitGuess_complete [OF assms] obtain r where
    r: "submitGuess s =
          s\<lparr>currentResult := Some r, roundResults := roundResults s @ [r], screen := Result\<rparr>"
      "result_guessLocation r = gl" "result_guessFloor r = gf"
      "roundNumber r = currentRound s" "imageUrl r = url img"
      "actualLocation r = (case correctLocation img of
                             None \<Rightarrow> \<lparr>coord_x = 50, coord_y = 50\<rparr> | Some l \<Rightarrow> l)"
      "actualFloor r = (case correctFloor img of
                          None \<Rightarrow> 1 | Some f \<Rightarrow> if f = 0 then 1 else f)"
      "distance r = calculateDistance gl (actualLocation r)"
      "locationScore r = calculateLocationScore (distance r)"
      "floorCorrect r = (gf = actualFloor r)"
      "score r = totalScore (locationScore r) (floorCorrect r)"
    by blast
  have "score r = (if gf = actualFloor r then locationScore r
                   else round (real_of_int (locationScore r) * 0.8))"
    by (simp add: r(10,11) totalScore_def Math_round_eq_round)
  with r(1-10) have first: "\<exists>r. submitGuess s =
              s\<lparr>currentResult := Some r, roundResults := roundResults s @ [r],
                screen := Result\<rparr> \<and>
            roundNumber r = currentRound s \<and> imageUrl r = url img \<and>
            result_guessLocation r = gl \<and> result_guessFloor r = gf \<and>
            actualLocation r = (case correctLocation img of
                                  None \<Rightarrow> \<lparr>coord_x = 50, coord_y = 50\<rparr> | Some l \<Rightarrow> l) \<and>
            actualFloor r = (case correctFloor img of
                               None \<Rightarrow> 1 | Some f \<Rightarrow> if f = 0 then 1 else f) \<and>
            distance r = calculateDistance gl (actualLocation r) \<and>
            locationScore r = calculateLocationScore (distance r) \<and>
            floorCorrect r = (gf = actualFloor r) \<and>
            score r = (if gf = actualFloor r then locationScore r
                       else round (real_of_int (locationScore r) * 0.8))"
    by blast
  have "totalScore n False = (8 * n + 5) div 10"
    by (simp only: totalScore_def Math_round_four_fifths if_False)
  moreover have "totalScore 5000 False = 4000"
    by (simp add: totalScore_def Math_round_def)
  moreover have "totalScore n True = n" "totalScore n False = round (real_of_int n * 0.8)"
    by (simp_all add: totalScore_def Math_round_eq_round)
  ultimately show ?thesis
    using first by blast
qed

text \<open>
  The theorem at the test suite's wrong-floor round: the mock image (floor 2), the marker on
  the target, floor 1 selected.
\<close>

theorem submitGuess_round_score_witness:
  "guessLocation (run [StartGame (Resolved mockImage), PlaceMarker centre, SelectFloor 1] initial)
     = Some centre \<and>
   guessFloor (run [StartGame (Resolved mockImage), PlaceMarker centre, SelectFloor 1] initial)
     = Some 1 \<and>
   (1 :: int) \<noteq> 0 \<and>
   currentImage (run [StartGame (Resolved mockImage), PlaceMarker centre, SelectFloor 1] initial)
     = Some mockImage \<and>
   (\<exists>r. currentResult (submitGuess
          (run [StartGame (Resolved mockImage), PlaceMarker centre, SelectFloor 1] initial)) = Some r \<and>
        result_guessFloor r = 1 \<and> actualFloor r = 2 \<and> distance r = 0 \<and>
        locationScore r = 5000 \<and> \<not> floorCorrect r \<and> score r = 4000) \<and>
   totalScore 3500 True = 3500 \<and> totalScore 3500 False = 2800"
proof -
  let ?s = "run [StartGame (Resolved mockImage), PlaceMarker centre, SelectFloor 1] initial"
  have h: "guessLocation ?s = Some centre" "guessFloor ?s = Some 1" "(1 :: int) \<noteq> 0"
    "currentImage ?s = Some mockImage"
    by (simp_all add: action_defs initial_def)
  from submitGuess_round_score [OF h, of 3500] obtain r where
    r: "submitGuess ?s =
          ?s\<lparr>currentResult := Some r, roundResults := roundResults ?s @ [r], screen := Result\<rparr>"
       "result_guessFloor r = 1"
       "actualLocation r = (case correctLocation mockImage of
                              None \<Rightarrow> \<lparr>coord_x = 50, coord_y = 50\<rparr> | Some l \<Rightarrow> l)"
       "actualFloor r = (case correctFloor mockImage of
                           None \<Rightarrow> 1 | Some f \<Rightarrow> if f = 0 then 1 else f)"
       "distance r = calculateDistance centre (actualLocation r)"
       "locationScore r = calculateLocationScore (distance r)"
       "floorCorrect r = ((1 :: int) = actualFloor r)"
       "score r = (if (1 :: int) = actualFloor r then locationScore r
                   else round (real_of_int (locationScore r) * 0.8))"
    and t: "totalScore 3500 True = 3500" "totalScore 3500 False = (8 * 3500 + 5) div 10"
    by blast
  have f: "actualFloor r = 2" and l: "actualLocation r = centre"
    using r(3,4) by (simp_all add: mockImage_def centre_def)
  have d: "distance r = 0"
    using r(5) l by (simp add: calculateDistance_same)
  have v: "locationScore r = 5000" "\<not> floorCorrect r" "score r = 4000"
    using r(6,7,8) f d by (simp_all add: calculateLocationScore_zero)
  have "currentResult (submitGuess ?s) = Some r"
    by (subst r(1)) simp
  with h r(2) f d v t show ?thesis by auto
qed

section \<open>Runs of the state machine\<close>

lemma run_append: "run (as @ bs) s = run bs (run as s)"
  by (induction as arbitrary: s) simp_all

lemma admissible_append:
  "admissible gate (as @ bs) s = (admissible gate as s \<and> admissible gate bs (run as s))"
  by (induction as arbitrary: s) simp_all

text \<open>The states of the example match, computed once.\<close>

lemma run_first_round:
  "run first_round initial =
     \<lparr>screen = Result, currentRound = 1, currentImage = Some mockImage,
      guessLocation = Some centre, guessFloor = Some 2,
      currentResult = Some (perfect_result 1), roundResults = [perfect_result 1],
      isLoading = False, error = None, fetchCalls = 1\<rparr>"
  by (simp add: eval_defs perfect_result_def)

lemma run_fifth_guess:
  "run fifth_guess initial =
     \<lparr>screen = Game, currentRound = 5, currentImage = Some mockImage,
      guessLocation = Some centre, guessFloor = Some 2,
      currentResult = None,
      roundResults = [perfect_result 1, perfect_result 2, perfect_result 3, perfect_result 4],
      isLoading = False, error = None, fetchCalls = 5\<rparr>"
  by (simp add: eval_defs perfect_result_def)

lemma run_five_rounds:
  "run five_rounds initial =
     \<lparr>screen = Result, currentRound = 5, currentImage = Some mockImage,
      guessLocation = Some centre, guessFloor = Some 2,
      currentResult = Some (perfect_result 5),
      roundResults = [perfect_result 1, perfect_result 2, perfect_result 3, perfect_result 4,
        perfect_result 5],
      isLoading = False, error = None, fetchCalls = 5\<rparr>"
  unfolding five_rounds_def run_append run_fifth_guess
  by (simp add: submitGuess_def Let_def mockImage_def centre_def calculateDistance_same
      calculateLocationScore_zero totalScore_def perfect_result_def)

lemma wired_first_round: "admissible wired first_round initial"
  by (simp add: eval_defs)

lemma wired_five_rounds: "admissible wired five_rounds initial"
  by (simp add: eval_defs)


section \<open>Events and suspended fetches\<close>

lemma trace_append: "trace (es @ fs) w = trace fs (trace es w)"
  by (induction es arbitrary: w) simp_all

lemma permitted_append:
  "permitted gate (es @ fs) w = (permitted gate es w \<and> permitted gate fs (trace es w))"
  by (induction es arbitrary: w) simp_all

text \<open>
  When every resumption follows at once, the events are the action in one piece.
\<close>

lemma occur_immediately:
  "trace (immediately [a]) (s, []) = (step a s, [])"
  by (cases a) (simp_all add: startGame_def nextRound_def loadNewImage_def)

lemma trace_immediately: "trace (immediately as) (s, []) = (run as s, [])"
proof (induction as arbitrary: s)
  case Nil
  then show ?case by simp
next
  case (Cons a as)
  have "immediately (a # as) = immediately [a] @ immediately as"
    by (cases a) simp_all
  then show ?case
    by (simp only: trace_append occur_immediately Cons.IH run.simps)
qed

lemma permitted_immediately:
  "admissible wired as s \<Longrightarrow> permitted wired_one_fetch (immediately as) (s, [])"
proof (induction as arbitrary: s)
  case Nil
  then show ?case by simp
next
  case (Cons a as)
  have split: "immediately (a # as) = immediately [a] @ immediately as"
    by (cases a) simp_all
  from Cons.prems have "wired a s" and "admissible wired as (step a s)"
    by simp_all
  from this(1) have "permitted wired_one_fetch (immediately [a]) (s, [])"
    by (cases a) simp_all
  with Cons.IH [OF \<open>admissible wired as (step a s)\<close>] show ?case
    by (simp only: split permitted_append occur_immediately simp_thms)
qed






text \<open>
  \<open>world_inv\<close> holds initially and is kept by every event that \<open>wired_one_fetch\<close> lets
  through.
\<close>

lemma world_inv_initial: "world_inv (initial, [])"
  by (simp add: world_inv_def round_inv_def initial_def TOTAL_ROUNDS_def)

lemma world_inv_invoke:
  assumes "world_inv (s, ps)" and "wired_one_fetch (Invoke a) (s, ps)"
  shows "world_inv (invoke a (s, ps))"
proof (cases a)
  case (StartGame out)
  with assms have "ps = []" and "round_inv s" and "\<not> isLoading s"
    and "screen s = Title \<or> screen s = FinalResults"
    by (auto simp: world_inv_def)
  with StartGame show ?thesis
    by (auto simp: world_inv_def startGame_begin_def)
next
  case (NextRound out)
  with assms have "ps = []" and "round_inv s" and "\<not> isLoading s" and "screen s = Result"
    by (auto simp: world_inv_def)
  with NextRound show ?thesis
    by (auto simp: world_inv_def round_inv_def loadNewImage_begin_def)
next
  case SubmitGuess
  with assms have g: "screen s = Game" by simp
  with assms have e: "ps = []"
    by (cases "(ps, s)" rule: suspended_inv.cases) (auto simp: world_inv_def)
  from submitGuess_cases [of s] show ?thesis
  proof
    assume "submitGuess s = s"
    with assms SubmitGuess show ?thesis by simp
  next
    assume "\<exists>r. submitGuess s =
      s\<lparr>currentResult := Some r, roundResults := roundResults s @ [r], screen := Result\<rparr>"
    then obtain r where "submitGuess s =
      s\<lparr>currentResult := Some r, roundResults := roundResults s @ [r], screen := Result\<rparr>" ..
    with assms g e SubmitGuess show ?thesis
      by (simp add: world_inv_def round_inv_def)
  qed
next
  case (PlaceMarker p)
  with assms show ?thesis
    by (cases "(ps, s)" rule: suspended_inv.cases)
      (auto simp: world_inv_def round_inv_def placeMarker_def)
next
  case (SelectFloor f)
  with assms show ?thesis
    by (cases "(ps, s)" rule: suspended_inv.cases)
      (auto simp: world_inv_def round_inv_def selectFloor_def)
next
  case ViewFinalResults
  with assms show ?thesis
    by (cases "(ps, s)" rule: suspended_inv.cases)
      (auto simp: world_inv_def round_inv_def viewFinalResults_def)
next
  case ResetGame
  with assms show ?thesis
    by (cases "(ps, s)" rule: suspended_inv.cases)
      (auto simp: world_inv_def round_inv_def resetGame_def TOTAL_ROUNDS_def)
qed

lemma world_inv_resume:
  assumes "world_inv (s, ps)"
  shows "world_inv (occur (Resume i) (s, ps))"
proof (cases "i < length ps")
  case False
  with assms show ?thesis by simp
next
  case True
  with assms obtain c where ps: "ps = [c]" and i: "i = 0"
    by (cases "(ps, s)" rule: suspended_inv.cases) (auto simp: world_inv_def)
  show ?thesis
  proof (cases c)
    case (AfterStartGame out)
    with assms ps i show ?thesis
      by (cases out) (auto simp: world_inv_def round_inv_def startGame_settle_def TOTAL_ROUNDS_def)
  next
    case (AfterNextRound out)
    with assms ps i show ?thesis
      by (cases out) (auto simp: world_inv_def loadNewImage_settle_def)
  next
    case AfterLoadNewImage
    with assms ps i show ?thesis
      by (auto simp: world_inv_def round_inv_def)
  qed
qed

lemma world_inv_occur:
  assumes "world_inv w" and "wired_one_fetch e w"
  shows "world_inv (occur e w)"
proof -
  obtain s ps where w: "w = (s, ps)" by (cases w)
  show ?thesis
  proof (cases e)
    case (Invoke a)
    with assms w show ?thesis by (simp add: world_inv_invoke)
  next
    case (Resume i)
    with assms w world_inv_resume [of s ps i] show ?thesis by simp
  qed
qed

lemma world_inv_trace:
  "world_inv w \<Longrightarrow> permitted wired_one_fetch es w \<Longrightarrow> world_inv (trace es w)"
  by (induction es arbitrary: w) (simp_all add: world_inv_occur)

text \<open>
  The example match as events, and the first \<open>nextRound\<close> suspended at its fetch.
\<close>

lemma reached_immediately: "reached (immediately as) = run as initial"
  by (simp add: reached_def trace_immediately)

lemma suspended_after_first_round:
  "trace (immediately first_round @ [Invoke (NextRound (Resolved mockImage))]) (initial, []) =
     (\<lparr>screen = Result, currentRound = 2, currentImage = Some mockImage,
       guessLocation = Some centre, guessFloor = Some 2,
       currentResult = None, roundResults = [perfect_result 1],
       isLoading = True, error = None, fetchCalls = 2\<rparr>,
      [AfterNextRound (Resolved mockImage)])"
  by (simp add: trace_append trace_immediately run_first_round loadNewImage_begin_def
      TOTAL_ROUNDS_def)

lemma reached_suspended_after_first_round:
  "reached (immediately first_round @ [Invoke (NextRound (Resolved mockImage))]) =
     \<lparr>screen = Result, currentRound = 2, currentImage = Some mockImage,
       guessLocation = Some centre, guessFloor = Some 2,
       currentResult = None, roundResults = [perfect_result 1],
       isLoading = True, error = None, fetchCalls = 2\<rparr>"
  by (simp add: reached_def suspended_after_first_round)

lemma permitted_suspended_after_first_round:
  "permitted wired_one_fetch (immediately first_round @ [Invoke (NextRound (Resolved mockImage))])
     (initial, [])"
  using permitted_immediately [OF wired_first_round]
  by (simp add: permitted_append trace_immediately run_first_round)

lemma outstanding_immediately: "outstanding (immediately as) = []"
  by (simp add: outstanding_def trace_immediately)

lemma outstanding_suspended_after_first_round:
  "outstanding (immediately first_round @ [Invoke (NextRound (Resolved mockImage))]) =
     [AfterNextRound (Resolved mockImage)]"
  by (simp add: outstanding_def suspended_after_first_round)

lemma wired_fifth_guess: "admissible wired fifth_guess initial"
  using wired_five_rounds by (simp add: five_rounds_def admissible_append)


text \<open>
  Why the gates keep \<open>startGame\<close> to the moments when no operation is suspended. On the
  final results screen the wiring offers \<open>startGame\<close> again while the first call is
  suspended. The continuation that is resumed late sets the game screen and resets nothing,
  so round 1 is played twice, every \<open>submitGuess\<close> on the game screen, and the match ends
  with six results.
\<close>

lemma overlapping_startGame_sixth_result:
  "permitted wired_one_fetch (immediately (five_rounds @ [ViewFinalResults])) (initial, []) \<and>
   length (roundResults (fst (trace
     ([Invoke (StartGame (Resolved mockImage)), Invoke (StartGame (Resolved mockImage)), Resume 0]
      @ map Invoke play_round @ [Resume 0] @ map Invoke play_round
      @ immediately (next_round @ next_round @ next_round @ next_round))
     (trace (immediately (five_rounds @ [ViewFinalResults])) (initial, []))))) = 6"
proof -
  have "admissible wired (five_rounds @ [ViewFinalResults]) initial"
    using wired_five_rounds by (simp add: admissible_append run_five_rounds)
  then have "permitted wired_one_fetch (immediately (five_rounds @ [ViewFinalResults])) (initial, [])"
    by (rule permitted_immediately)
  moreover have "length (roundResults (fst (trace
     ([Invoke (StartGame (Resolved mockImage)), Invoke (StartGame (Resolved mockImage)), Resume 0]
      @ map Invoke play_round @ [Resume 0] @ map Invoke play_round
      @ immediately (next_round @ next_round @ next_round @ next_round))
     (trace (immediately (five_rounds @ [ViewFinalResults])) (initial, []))))) = 6"
    unfolding trace_immediately run_append run_five_rounds
    by (simp add: eval_defs)
  ultimately show ?thesis by simp
qed

section \<open>The session state machine\<close>




text \<open>
  Claim C4 says that a rejected fetch in \<open>nextRound\<close> leaves the session on the result
  screen with the error set and the history kept. The source at that input: the first
  round is on the result screen, the fetch of \<open>nextRound\<close> rejects. The error is set and
  the history is kept, but \<open>setScreen('game')\<close> runs all the same: the session is on the
  game screen, in round 2, without a current result, with the image and the guess of
  round 1. The sibling \<open>startGame\<close> keeps its screen when its fetch rejects.
\<close>

theorem nextRound_rejected_leaves_result:
  "screen (run first_round initial) = Result \<and>
   screen (nextRound Rejected (run first_round initial)) = Game \<and>
   error (nextRound Rejected (run first_round initial)) = Some load_error \<and>
   roundResults (nextRound Rejected (run first_round initial))
     = roundResults (run first_round initial) \<and>
   currentRound (nextRound Rejected (run first_round initial)) = 2 \<and>
   currentResult (nextRound Rejected (run first_round initial)) = None \<and>
   currentImage (nextRound Rejected (run first_round initial))
     = currentImage (run first_round initial) \<and>
   guessLocation (nextRound Rejected (run first_round initial)) = Some centre \<and>
   screen (startGame Rejected initial) = screen initial"
  unfolding run_first_round
  by (simp add: action_defs TOTAL_ROUNDS_def initial_def)

text \<open>
  Claim C5. In the last round (\<open>currentRound = TOTAL_ROUNDS\<close>), once the guess has been
  submitted, \<open>nextRound\<close> only sets the screen to the final results, however a fetch would
  settle: no other field changes, and \<open>getRandomImage\<close> has been called as often as before
  the submission.
\<close>

theorem nextRound_terminal_short_circuit:
  "currentRound s = TOTAL_ROUNDS \<Longrightarrow>
   nextRound out (submitGuess s) = (submitGuess s)\<lparr>screen := FinalResults\<rparr> \<and>
   screen (nextRound out (submitGuess s)) = FinalResults \<and>
   fetchCalls (nextRound out (submitGuess s)) = fetchCalls s"
  by (simp add: nextRound_def submitGuess_frame)

text \<open>The theorem at the fifth round of the example match, after its five fetches.\<close>

theorem nextRound_terminal_short_circuit_witness:
  "currentRound (run fifth_guess initial) = TOTAL_ROUNDS \<and>
   screen (submitGuess (run fifth_guess initial)) = Result \<and>
   length (roundResults (submitGuess (run fifth_guess initial))) = 5 \<and>
   screen (nextRound Rejected (submitGuess (run fifth_guess initial))) = FinalResults \<and>
   fetchCalls (nextRound Rejected (submitGuess (run fifth_guess initial))) = 5"
proof -
  have r: "currentRound (run fifth_guess initial) = TOTAL_ROUNDS"
    by (simp add: run_fifth_guess TOTAL_ROUNDS_def)
  have s: "submitGuess (run fifth_guess initial) = run five_rounds initial"
    by (simp add: five_rounds_def run_append)
  from nextRound_terminal_short_circuit [OF r, of Rejected] r show ?thesis
    unfolding s by (simp add: run_five_rounds run_fifth_guess)
qed

text \<open>
  Claim C6, as stated, fails on the result screen: \<open>submitGuess\<close> appends the result and
  leaves \<open>currentRound\<close> alone, so after the first submission the round is 1 and the
  history holds one result, while the match (one round of five) is not finished. The
  sequence follows the wiring, each operation running to its end.
\<close>

theorem round_number_on_result_counterexample:
  "admissible wired first_round initial \<and>
   screen (run first_round initial) = Result \<and>
   length (roundResults (run first_round initial)) < TOTAL_ROUNDS \<and>
   currentRound (run first_round initial) \<noteq> length (roundResults (run first_round initial)) + 1 \<and>
   permitted wired_one_fetch (immediately first_round) (initial, []) \<and>
   reached (immediately first_round) = run first_round initial"
  using wired_first_round permitted_immediately [OF wired_first_round]
  by (simp add: run_first_round reached_immediately TOTAL_ROUNDS_def)

text \<open>
  Claim C6, amended. In every state reached from the initial title state by actions invoked
  on the screens that offer them, \<open>startGame\<close> and \<open>nextRound\<close> only while no operation is
  suspended, and by suspended operations resuming: on the game screen the round number is
  the length of the history plus one; on the result screen it is the length of the
  history while the current result is present (the round's result is already appended),
  and the length plus one once \<open>nextRound\<close> has cleared the current result (it has
  incremented the round and has not reached the game screen yet), in particular while
  loading; and whenever the history holds \<open>TOTAL_ROUNDS\<close> results the round number is
  \<open>TOTAL_ROUNDS\<close>.
\<close>

theorem round_number_invariant:
  "permitted wired_one_fetch es (initial, []) \<Longrightarrow>
   (screen (reached es) = Game \<longrightarrow>
      currentRound (reached es) = length (roundResults (reached es)) + 1) \<and>
   (screen (reached es) = Result \<and> currentResult (reached es) \<noteq> None \<longrightarrow>
      currentRound (reached es) = length (roundResults (reached es))) \<and>
   (screen (reached es) = Result \<and> currentResult (reached es) = None \<longrightarrow>
      currentRound (reached es) = length (roundResults (reached es)) + 1 \<and>
      outstanding es \<noteq> []) \<and>
   (screen (reached es) = Result \<and> isLoading (reached es) \<longrightarrow>
      currentRound (reached es) = length (roundResults (reached es)) + 1) \<and>
   (length (roundResults (reached es)) = TOTAL_ROUNDS \<longrightarrow>
      currentRound (reached es) = TOTAL_ROUNDS)"
proof -
  assume "permitted wired_one_fetch es (initial, [])"
  with world_inv_initial have inv: "world_inv (trace es (initial, []))"
    by (rule world_inv_trace)
  obtain s ps where w: "trace es (initial, []) = (s, ps)"
    by (cases "trace es (initial, [])")
  with inv have "suspended_inv ps s"
    by (simp add: world_inv_def)
  then have "(screen s = Game \<longrightarrow> currentRound s = length (roundResults s) + 1) \<and>
    (screen s = Result \<and> currentResult s \<noteq> None \<longrightarrow>
       currentRound s = length (roundResults s)) \<and>
    (screen s = Result \<and> currentResult s = None \<longrightarrow>
       currentRound s = length (roundResults s) + 1 \<and> ps \<noteq> []) \<and>
    (screen s = Result \<and> isLoading s \<longrightarrow> currentRound s = length (roundResults s) + 1) \<and>
    (length (roundResults s) = TOTAL_ROUNDS \<longrightarrow> currentRound s = TOTAL_ROUNDS)"
    by (cases "(ps, s)" rule: suspended_inv.cases; cases "screen s")
      (auto simp: round_inv_def TOTAL_ROUNDS_def)
  with w show ?thesis
    by (simp add: reached_def outstanding_def)
qed

text \<open>
  The parts at the example match: round 5 before its submission (game screen) and after it
  (result screen, full history), and the first \<open>nextRound\<close> suspended at its fetch.
\<close>

theorem round_number_invariant_witness:
  "permitted wired_one_fetch (immediately fifth_guess) (initial, []) \<and>
   screen (reached (immediately fifth_guess)) = Game \<and>
   currentRound (reached (immediately fifth_guess))
     = length (roundResults (reached (immediately fifth_guess))) + 1 \<and>
   permitted wired_one_fetch (immediately five_rounds) (initial, []) \<and>
   screen (reached (immediately five_rounds)) = Result \<and>
   currentResult (reached (immediately five_rounds)) \<noteq> None \<and>
   length (roundResults (reached (immediately five_rounds))) = TOTAL_ROUNDS \<and>
   currentRound (reached (immediately five_rounds))
     = length (roundResults (reached (immediately five_rounds))) \<and>
   currentRound (reached (immediately five_rounds)) = TOTAL_ROUNDS \<and>
   permitted wired_one_fetch
     (immediately first_round @ [Invoke (NextRound (Resolved mockImage))]) (initial, []) \<and>
   screen (reached (immediately first_round @ [Invoke (NextRound (Resolved mockImage))]))
     = Result \<and>
   currentResult (reached (immediately first_round @ [Invoke (NextRound (Resolved mockImage))]))
     = None \<and>
   isLoading (reached (immediately first_round @ [Invoke (NextRound (Resolved mockImage))])) \<and>
   outstanding (immediately first_round @ [Invoke (NextRound (Resolved mockImage))]) \<noteq> [] \<and>
   currentRound (reached (immediately first_round @ [Invoke (NextRound (Resolved mockImage))]))
     = length (roundResults
         (reached (immediately first_round @ [Invoke (NextRound (Resolved mockImage))]))) + 1"
proof -
  let ?pending = "immediately first_round @ [Invoke (NextRound (Resolved mockImage))]"
  have a: "permitted wired_one_fetch (immediately fifth_guess) (initial, [])"
    and b: "permitted wired_one_fetch (immediately five_rounds) (initial, [])"
    by (rule permitted_immediately, rule wired_fifth_guess)
      (rule permitted_immediately, rule wired_five_rounds)
  note c = permitted_suspended_after_first_round
  have g: "screen (reached (immediately fifth_guess)) = Game"
    by (simp add: reached_immediately run_fifth_guess)
  have r: "screen (reached (immediately five_rounds)) = Result"
    "currentResult (reached (immediately five_rounds)) \<noteq> None"
    "length (roundResults (reached (immediately five_rounds))) = TOTAL_ROUNDS"
    by (simp_all add: reached_immediately run_five_rounds TOTAL_ROUNDS_def)
  have p: "screen (reached ?pending) = Result" "currentResult (reached ?pending) = None"
    "isLoading (reached ?pending)"
    by (simp_all add: reached_suspended_after_first_round)
  from round_number_invariant [OF a] g
  have 1: "currentRound (reached (immediately fifth_guess))
     = length (roundResults (reached (immediately fifth_guess))) + 1"
    by blast
  from round_number_invariant [OF b] r
  have 2: "currentRound (reached (immediately five_rounds))
     = length (roundResults (reached (immediately five_rounds)))"
    "currentRound (reached (immediately five_rounds)) = TOTAL_ROUNDS"
    by blast+
  from round_number_invariant [OF c] p
  have 3: "currentRound (reached ?pending) = length (roundResults (reached ?pending)) + 1"
    "outstanding ?pending \<noteq> []"
    by blast+
  from a b c g r p 1 2 3 show ?thesis
    by blast
qed

text \<open>
  Claim C7, as stated, fails: \<open>viewFinalResults\<close> (like the last \<open>nextRound\<close>) only sets
  the screen, so on the final results screen the last round's result is still present.
  The sequence follows the wiring, each operation running to its end.
\<close>

theorem currentResult_after_final_counterexample:
  "admissible wired (five_rounds @ [ViewFinalResults]) initial \<and>
   currentResult (run (five_rounds @ [ViewFinalResults]) initial) \<noteq> None \<and>
   screen (run (five_rounds @ [ViewFinalResults]) initial) \<noteq> Result \<and>
   permitted wired_one_fetch (immediately (five_rounds @ [ViewFinalResults])) (initial, []) \<and>
   reached (immediately (five_rounds @ [ViewFinalResults]))
     = run (five_rounds @ [ViewFinalResults]) initial"
proof -
  have a: "admissible wired (five_rounds @ [ViewFinalResults]) initial"
    using wired_five_rounds by (simp add: admissible_append run_five_rounds)
  from a permitted_immediately [OF a] show ?thesis
    by (simp add: reached_immediately run_append run_five_rounds viewFinalResults_def)
qed

text \<open>
  Claim C7, amended. In every state reached from the initial title state by actions invoked
  on the screens that offer them, \<open>startGame\<close> and \<open>nextRound\<close> only while no operation is
  suspended, and by suspended operations resuming: on the title and game screens the
  current result is absent; on the result screen it is present exactly while no operation
  is suspended (\<open>nextRound\<close> clears it when invoked and leaves the result screen only at
  its end); while loading it is absent. On the final results screen it may be either.
\<close>

theorem currentResult_presence:
  "permitted wired_one_fetch es (initial, []) \<Longrightarrow>
   (screen (reached es) = Title \<or> screen (reached es) = Game \<longrightarrow>
      currentResult (reached es) = None) \<and>
   (screen (reached es) = Result \<longrightarrow>
      (currentResult (reached es) \<noteq> None \<longleftrightarrow> outstanding es = [])) \<and>
   (isLoading (reached es) \<longrightarrow> outstanding es \<noteq> [] \<and> currentResult (reached es) = None)"
proof -
  assume "permitted wired_one_fetch es (initial, [])"
  with world_inv_initial have inv: "world_inv (trace es (initial, []))"
    by (rule world_inv_trace)
  obtain s ps where w: "trace es (initial, []) = (s, ps)"
    by (cases "trace es (initial, [])")
  with inv have "suspended_inv ps s"
    by (simp add: world_inv_def)
  then have "(screen s = Title \<or> screen s = Game \<longrightarrow> currentResult s = None) \<and>
    (screen s = Result \<longrightarrow> (currentResult s \<noteq> None \<longleftrightarrow> ps = [])) \<and>
    (isLoading s \<longrightarrow> ps \<noteq> [] \<and> currentResult s = None)"
    by (cases "(ps, s)" rule: suspended_inv.cases; cases "screen s")
      (auto simp: round_inv_def)
  with w show ?thesis
    by (simp add: reached_def outstanding_def)
qed

text \<open>
  The parts at the example match: after the first submission, in round 5 before the
  submission, and with the first \<open>nextRound\<close> suspended at its fetch.
\<close>

theorem currentResult_presence_witness:
  "permitted wired_one_fetch (immediately first_round) (initial, []) \<and>
   screen (reached (immediately first_round)) = Result \<and>
   outstanding (immediately first_round) = [] \<and>
   currentResult (reached (immediately first_round)) \<noteq> None \<and>
   permitted wired_one_fetch (immediately fifth_guess) (initial, []) \<and>
   screen (reached (immediately fifth_guess)) = Game \<and>
   currentResult (reached (immediately fifth_guess)) = None \<and>
   permitted wired_one_fetch
     (immediately first_round @ [Invoke (NextRound (Resolved mockImage))]) (initial, []) \<and>
   screen (reached (immediately first_round @ [Invoke (NextRound (Resolved mockImage))]))
     = Result \<and>
   isLoading (reached (immediately first_round @ [Invoke (NextRound (Resolved mockImage))])) \<and>
   outstanding (immediately first_round @ [Invoke (NextRound (Resolved mockImage))]) \<noteq> [] \<and>
   currentResult (reached (immediately first_round @ [Invoke (NextRound (Resolved mockImage))]))
     = None"
proof -
  let ?pending = "immediately first_round @ [Invoke (NextRound (Resolved mockImage))]"
  have a: "permitted wired_one_fetch (immediately first_round) (initial, [])"
    and b: "permitted wired_one_fetch (immediately fifth_guess) (initial, [])"
    by (rule permitted_immediately, rule wired_first_round)
      (rule permitted_immediately, rule wired_fifth_guess)
  note c = permitted_suspended_after_first_round
  have r: "screen (reached (immediately first_round)) = Result"
    "outstanding (immediately first_round) = []"
    by (simp_all add: reached_immediately run_first_round outstanding_immediately)
  have g: "screen (reached (immediately fifth_guess)) = Game"
    by (simp add: reached_immediately run_fifth_guess)
  have p: "screen (reached ?pending) = Result" "isLoading (reached ?pending)"
    by (simp_all add: reached_suspended_after_first_round)
  from currentResult_presence [OF a] r
  have 1: "currentResult (reached (immediately first_round)) \<noteq> None"
    by blast
  from currentResult_presence [OF b] g
  have 2: "currentResult (reached (immediately fifth_guess)) = None"
    by blast
  from currentResult_presence [OF c] p
  have 3: "outstanding ?pending \<noteq> []" "currentResult (reached ?pending) = None"
    by blast+
  from a b c r g p 1 2 3 show ?thesis
    by blast
qed

text \<open>
  Claim C8. In every state where the guessed floor or the guessed location is absent,
  \<open>submitGuess\<close> returns the state as it is: the history, the screen and the current
  result are unchanged.
\<close>

theorem submitGuess_incomplete_noop:
  "guessFloor s = None \<or> guessLocation s = None \<Longrightarrow>
   submitGuess s = s \<and> roundResults (submitGuess s) = roundResults s \<and>
   screen (submitGuess s) = screen s \<and> currentResult (submitGuess s) = currentResult s"
  using submitGuess_guard [of s] by auto

text \<open>The theorem on the game screen with a marker placed and no floor selected.\<close>

theorem submitGuess_incomplete_noop_witness:
  "guessFloor (run [StartGame (Resolved mockImage), PlaceMarker centre] initial) = None \<and>
   guessLocation (run [StartGame (Resolved mockImage), PlaceMarker centre] initial) \<noteq> None \<and>
   submitGuess (run [StartGame (Resolved mockImage), PlaceMarker centre] initial)
     = run [StartGame (Resolved mockImage), PlaceMarker centre] initial \<and>
   screen (submitGuess (run [StartGame (Resolved mockImage), PlaceMarker centre] initial)) = Game \<and>
   roundResults (submitGuess (run [StartGame (Resolved mockImage), PlaceMarker centre] initial)) = []"
proof -
  let ?s = "run [StartGame (Resolved mockImage), PlaceMarker centre] initial"
  have f: "guessFloor ?s = None" and l: "guessLocation ?s \<noteq> None"
    and g: "screen ?s = Game" and h: "roundResults ?s = []"
    by (simp_all add: action_defs initial_def)
  from submitGuess_incomplete_noop [of ?s] f l g h show ?thesis
    by simp
qed

section \<open>The performance rating\<close>

lemma getPerformanceRating_spec:
  "m \<noteq> 0 \<or> t \<le> 0 \<Longrightarrow> getPerformanceRating t m = performanceTier_spec t m"
  by (auto simp: getPerformanceRating_def performanceTier_spec_def js_divide_def Let_def)

text \<open>
  Claim C9. \<open>getPerformanceRating\<close> is local to \<open>FinalResultsScreen\<close>, which calls it
  with the sum of the scores and 5000 times the number of rounds. For every history the
  rating is the spec's: the percentage \<open>total / max * 100\<close>, taken as 0 when \<open>max = 0\<close>,
  against the inclusive lower bounds 95, 80, 60, 40 and 20; the empty history, the one
  case with \<open>max = 0\<close>, is rated Beginner. The function alone agrees with the spec's
  for every \<open>total\<close> and every \<open>max \<noteq> 0\<close>, and for \<open>max = 0\<close> with \<open>total \<le> 0\<close>. (The
  source has no guard of its own: \<open>0 / 0\<close> is \<open>NaN\<close>, and every comparison with it is
  false.)
\<close>

theorem performance_tiers:
  "performance rounds
     = performanceTier_spec (rounds_totalScore rounds) (maxPossible rounds) \<and>
   (rounds = [] \<longrightarrow> maxPossible rounds = 0 \<and> rounds_totalScore rounds = 0 \<and>
      performance rounds = Beginner) \<and>
   (m \<noteq> 0 \<or> t \<le> 0 \<longrightarrow> getPerformanceRating t m = performanceTier_spec t m)"
proof -
  have "maxPossible rounds \<noteq> 0 \<or> rounds_totalScore rounds \<le> 0"
    by (cases rounds) (simp_all add: maxPossible_def rounds_totalScore_def)
  then have "performance rounds
     = performanceTier_spec (rounds_totalScore rounds) (maxPossible rounds)"
    unfolding performance_def by (rule getPerformanceRating_spec)
  moreover have "rounds = [] \<longrightarrow> maxPossible rounds = 0 \<and> rounds_totalScore rounds = 0 \<and>
      performance rounds = Beginner"
    by (simp add: performance_def maxPossible_def rounds_totalScore_def getPerformanceRating_def
        js_divide_def)
  ultimately show ?thesis
    using getPerformanceRating_spec [of m t] by blast
qed

text \<open>
  The theorem at the empty history, at five perfect rounds and at the thresholds.
\<close>

theorem performance_tiers_witness:
  "performance [] = Beginner \<and>
   performance [perfect_result 1, perfect_result 2, perfect_result 3, perfect_result 4,
     perfect_result 5] = Perfect \<and>
   (25000 :: int) \<noteq> 0 \<and>
   getPerformanceRating 23750 25000 = Perfect \<and>
   getPerformanceRating 20000 25000 = Excellent \<and>
   getPerformanceRating 19999 25000 = Great \<and>
   getPerformanceRating 0 0 = Beginner"
proof -
  let ?five = "[perfect_result 1, perfect_result 2, perfect_result 3, perfect_result 4,
     perfect_result 5]"
  have e: "([] :: round_result list) = []" by simp
  have "rounds_totalScore ?five = 25000" "maxPossible ?five = 25000"
    by (simp_all add: rounds_totalScore_def maxPossible_def perfect_result_def)
  with performance_tiers [of ?five 25000 23750] performance_tiers [of "[]" 25000 20000]
    performance_tiers [of "[]" 25000 19999] performance_tiers [of "[]" 0 0] e
  show ?thesis
    by (simp add: performanceTier_spec_def)
qed

section \<open>Playing again\<close>

text \<open>
  Claim C10. \<open>startGame\<close> invoked on the final results screen (where \<open>App.jsx\<close> wires it
  as \<open>onPlayAgain\<close>) has emptied the history and reset the round to 1 when it suspends
  at its fetch; when the fetch rejects, the session is still on the final results screen,
  with the error set and the history empty.
\<close>

theorem playAgain_rejected_loses_history:
  "screen s = FinalResults \<Longrightarrow>
   wired (StartGame Rejected) s \<and>
   roundResults (startGame_begin s) = [] \<and> currentRound (startGame_begin s) = 1 \<and>
   screen (startGame_begin s) = FinalResults \<and> isLoading (startGame_begin s) \<and>
   step (StartGame Rejected) s = startGame_settle Rejected (startGame_begin s) \<and>
   screen (step (StartGame Rejected) s) = FinalResults \<and>
   error (step (StartGame Rejected) s) = Some load_error \<and>
   roundResults (step (StartGame Rejected) s) = [] \<and>
   currentRound (step (StartGame Rejected) s) = 1"
  by (simp add: action_defs)

text \<open>The theorem after the example match: its five results are gone.\<close>

theorem playAgain_rejected_loses_history_witness:
  "screen (run (five_rounds @ [ViewFinalResults]) initial) = FinalResults \<and>
   length (roundResults (run (five_rounds @ [ViewFinalResults]) initial)) = 5 \<and>
   screen (step (StartGame Rejected) (run (five_rounds @ [ViewFinalResults]) initial))
     = FinalResults \<and>
   error (step (StartGame Rejected) (run (five_rounds @ [ViewFinalResults]) initial))
     = Some load_error \<and>
   roundResults (step (StartGame Rejected) (run (five_rounds @ [ViewFinalResults]) initial)) = []"
proof -
  let ?s = "run (five_rounds @ [ViewFinalResults]) initial"
  have f: "screen ?s = FinalResults" and l: "length (roundResults ?s) = 5"
    by (simp_all add: run_append run_five_rounds viewFinalResults_def)
  from playAgain_rejected_loses_history [OF f]
  have "screen (step (StartGame Rejected) ?s) = FinalResults"
    and "error (step (StartGame Rejected) ?s) = Some load_error"
    and "roundResults (step (StartGame Rejected) ?s) = []"
    by blast+
  with f l show ?thesis
    by blast
qed

end
